theory Spec2Isabelle
  imports Main "HOL-Library.Multiset"
begin

section \<open>The courier report server (server.js)\<close>

text \<open>
  The file server.js comes in two variants. The first one talks to the database through
  callbacks on a single connection, the second one through promises on a connection pool.
  Their route handlers take the same decisions and send the same messages; they differ in
  the signing secret (the pool variant reads \<open>JWT_SECRET\<close> from the process environment),
  in the photo reference they store with a report, and in the two extra routes \<open>/\<close> and
  \<open>/init-db\<close> of the pool variant. The model has one definition for each handler and a
  \<open>variant\<close> where the two differ.

  What lies outside server.js is a parameter of the model:
  \<^item> the libraries (bcrypt, the encoding and the keyed hash of jsonwebtoken, path.extname)
    are fields of a \<open>platform\<close>;
  \<^item> the clock, the salt that bcrypt draws and the failure the database reports for the
    statements of a request, if any, are fields of the \<open>env\<close> in which a request runs;
  \<^item> the two tables and the upload directory are the \<open>state\<close>, passed through each
    handler and returned with its response.
\<close>

subsection \<open>Data\<close>

text \<open>The columns of table \<open>users\<close> and of table \<open>laporan_pengiriman\<close> (see \<open>/init-db\<close>).
  A \<open>TIMESTAMP\<close> column holds whole seconds.\<close>

record user_row =
  user_id :: nat
  username :: string
  password_hash :: string
  user_created_at :: nat

record laporan_row =
  laporan_id :: nat
  id_kurir :: nat
  no_resi :: string
  foto_path :: string
  latitude :: string
  longitude :: string
  status :: string
  created_at :: nat

text \<open>The payload of a session token: what \<open>jwt.sign\<close> is given (\<open>id\<close>, \<open>username\<close>) and
  the two registered claims it adds, both in seconds.\<close>

record authData =
  auth_id :: nat
  auth_username :: string
  iat :: nat
  exp :: nat

text \<open>An error object of the database driver: \<open>err.code\<close> and \<open>err.message\<close>.\<close>

record db_error =
  err_code :: string
  err_message :: string

text \<open>A file part of a multipart request, and what multer leaves in \<open>req.file\<close>.\<close>

record upload =
  originalname :: string
  content :: string

record multer_file =
  filename :: string
  file_path :: string

datatype variant = Callback | Pool

record platform =
  variant :: variant
  JWT_SECRET :: "string option"
  dirname :: string
  bcrypt_hash :: "string \<Rightarrow> nat \<Rightarrow> string \<Rightarrow> string"
  bcrypt_compare :: "string \<Rightarrow> string \<Rightarrow> bool"
  jwt_encode :: "authData \<times> string \<Rightarrow> string"
  jwt_decode :: "string \<Rightarrow> (authData \<times> string) option"
  jwt_hmac :: "string \<Rightarrow> authData \<Rightarrow> string"
  path_extname :: "string \<Rightarrow> string"

record env =
  Date_now :: nat
  salt :: string
  db_fault :: "db_error option"

record state =
  users :: "user_row list"
  laporan_pengiriman :: "laporan_row list"
  uploads :: "(string \<times> string) list"

text \<open>Response bodies: \<open>{error}\<close>, \<open>{message}\<close>, \<open>{message, token}\<close>, an array of report rows,
  plain text (\<open>res.send\<close>), and the framework's page for a route that is not registered.\<close>

datatype body =
    JsonError string
  | JsonMessage string
  | JsonToken string string
  | JsonRows "laporan_row list"
  | Text string
  | CannotGet

record response =
  code :: nat
  body :: body

text \<open>A middleware either answers the request or passes a value on to the next stage.\<close>

datatype 'a middleware = Respond response | Next 'a

datatype jwt_error = JsonWebTokenError string | TokenExpiredError

datatype request =
    POST_register "string option" "string option"
  | POST_login "string option" "string option"
  | POST_laporan "string option" "string option" "string option" "string option" "upload option"
  | GET_laporan "string option"
  | GET_root
  | GET_init_db

subsection \<open>JavaScript values and strings\<close>

text \<open>A field of a request (a body field, a header) is absent or a string. \<open>!x\<close> holds for
  \<open>undefined\<close> and for the empty string.\<close>

fun falsy :: "string option \<Rightarrow> bool" where
  "falsy None = True"
| "falsy (Some s) = (s = [])"

text \<open>\<open>s.split(sep)\<close> for a separator of one character: one piece more than there are
  separators, empty pieces kept.\<close>

fun js_split :: "char \<Rightarrow> string \<Rightarrow> string list" where
  "js_split sep [] = [[]]"
| "js_split sep (c # cs) =
     (if c = sep then [] # js_split sep cs
      else (case js_split sep cs of
              [] \<Rightarrow> [[c]]
            | w # ws \<Rightarrow> (c # w) # ws))"

text \<open>\<open>xs[i]\<close>: \<open>undefined\<close> out of range.\<close>

fun js_index :: "'a list \<Rightarrow> nat \<Rightarrow> 'a option" where
  "js_index [] i = None"
| "js_index (x # xs) 0 = Some x"
| "js_index (x # xs) (Suc i) = js_index xs i"

text \<open>A number in a string concatenation (\<open>Date.now() + ext\<close>): its decimal digits.\<close>

fun Number_toString :: "nat \<Rightarrow> string" where
  "Number_toString n =
     (if n < 10 then [char_of (48 + n)]
      else Number_toString (n div 10) @ [char_of (48 + n mod 10)])"

declare Number_toString.simps [simp del]

subsection \<open>jsonwebtoken\<close>

text \<open>\<open>SECRET_KEY\<close>: a constant in the callback variant,
  \<open>process.env.JWT_SECRET || "kunci_rahasia_akses"\<close> in the pool variant.\<close>

definition SECRET_KEY :: "platform \<Rightarrow> string" where
  "SECRET_KEY P =
     (case variant P of
        Callback \<Rightarrow> ''kunci_rahasia_akses''
      | Pool \<Rightarrow> (if falsy (JWT_SECRET P) then ''kunci_rahasia_akses''
                 else (case JWT_SECRET P of Some k \<Rightarrow> k | None \<Rightarrow> ''kunci_rahasia_akses'')))"

text \<open>\<open>jwt.sign(payload, key, {expiresIn: '1h'})\<close>: the payload gets \<open>iat\<close>, the clock in
  seconds, and \<open>exp = iat + 3600\<close>; the token is the encoding of the payload with its
  keyed hash.\<close>

definition jwt_sign :: "platform \<Rightarrow> env \<Rightarrow> nat \<Rightarrow> string \<Rightarrow> string \<Rightarrow> string" where
  "jwt_sign P E uid uname key =
     (let t = Date_now E div 1000;
          payload = \<lparr>auth_id = uid, auth_username = uname, iat = t, exp = t + 3600\<rparr>
      in jwt_encode P (payload, jwt_hmac P key payload))"

text \<open>\<open>jwt.verify(token, key, callback)\<close>, in the order of the library's checks: a token
  must be given, it must decode, its keyed hash must be the one of the key, and the clock
  in seconds must be below \<open>exp\<close>.\<close>

definition jwt_verify :: "platform \<Rightarrow> env \<Rightarrow> string option \<Rightarrow> string \<Rightarrow> jwt_error + authData" where
  "jwt_verify P E token key =
     (if falsy token then Inl (JsonWebTokenError ''jwt must be provided'')
      else case token of
        None \<Rightarrow> Inl (JsonWebTokenError ''jwt must be provided'')
      | Some t \<Rightarrow>
          (case jwt_decode P t of
             None \<Rightarrow> Inl (JsonWebTokenError ''jwt malformed'')
           | Some (payload, signature) \<Rightarrow>
               if signature \<noteq> jwt_hmac P key payload
               then Inl (JsonWebTokenError ''invalid signature'')
               else if exp payload \<le> Date_now E div 1000 then Inl TokenExpiredError
               else Inr payload))"

subsection \<open>The database\<close>

text \<open>Every statement of a request fails with the error of \<open>db_fault\<close> when there is one
  (a lost connection, a missing table, a value the column does not take). Otherwise it
  runs on the tables. Column \<open>id\<close> is \<open>AUTO_INCREMENT\<close>: a new row gets an id above all
  others. Column \<open>username\<close> is \<open>UNIQUE\<close>: a second row with the same name is refused
  with \<open>ER_DUP_ENTRY\<close>. \<open>created_at\<close> defaults to the current second.\<close>

definition next_id :: "nat list \<Rightarrow> nat" where
  "next_id ids = Suc (fold max ids 0)"

definition INSERT_INTO_users :: "env \<Rightarrow> string \<Rightarrow> string \<Rightarrow> state \<Rightarrow> db_error + state" where
  "INSERT_INTO_users E uname hashedPassword s =
     (case db_fault E of
        Some err \<Rightarrow> Inl err
      | None \<Rightarrow>
          if uname \<in> set (map username (users s))
          then Inl \<lparr>err_code = ''ER_DUP_ENTRY'', err_message = ''Duplicate entry''\<rparr>
          else Inr (s\<lparr>users := users s @
                 [\<lparr>user_id = next_id (map user_id (users s)), username = uname,
                   password_hash = hashedPassword,
                   user_created_at = Date_now E div 1000\<rparr>]\<rparr>))"

definition SELECT_FROM_users :: "env \<Rightarrow> string \<Rightarrow> state \<Rightarrow> db_error + user_row list" where
  "SELECT_FROM_users E uname s =
     (case db_fault E of
        Some err \<Rightarrow> Inl err
      | None \<Rightarrow> Inr (filter (\<lambda>r. username r = uname) (users s)))"

definition INSERT_INTO_laporan_pengiriman ::
  "env \<Rightarrow> nat \<Rightarrow> string \<Rightarrow> string \<Rightarrow> string \<Rightarrow> string \<Rightarrow> state \<Rightarrow> db_error + state" where
  "INSERT_INTO_laporan_pengiriman E kurir resi foto lat lon s =
     (case db_fault E of
        Some err \<Rightarrow> Inl err
      | None \<Rightarrow>
          Inr (s\<lparr>laporan_pengiriman := laporan_pengiriman s @
                 [\<lparr>laporan_id = next_id (map laporan_id (laporan_pengiriman s)),
                   id_kurir = kurir, no_resi = resi, foto_path = foto,
                   latitude = lat, longitude = lon, status = ''Terkirim'',
                   created_at = Date_now E div 1000\<rparr>]\<rparr>))"

text \<open>\<open>ORDER BY created_at DESC\<close>: rows of the same second stay in the order of the table.\<close>

definition ORDER_BY_created_at_DESC :: "laporan_row list \<Rightarrow> laporan_row list" where
  "ORDER_BY_created_at_DESC rows = sort_key (\<lambda>r. - int (created_at r)) rows"

definition SELECT_FROM_laporan_pengiriman :: "env \<Rightarrow> nat \<Rightarrow> state \<Rightarrow> db_error + laporan_row list" where
  "SELECT_FROM_laporan_pengiriman E kurir s =
     (case db_fault E of
        Some err \<Rightarrow> Inl err
      | None \<Rightarrow>
          Inr (ORDER_BY_created_at_DESC (filter (\<lambda>r. id_kurir r = kurir) (laporan_pengiriman s))))"

text \<open>\<open>CREATE TABLE IF NOT EXISTS\<close> changes no row.\<close>

definition CREATE_TABLE_IF_NOT_EXISTS :: "env \<Rightarrow> state \<Rightarrow> db_error + state" where
  "CREATE_TABLE_IF_NOT_EXISTS E s = (case db_fault E of Some err \<Rightarrow> Inl err | None \<Rightarrow> Inr s)"

subsection \<open>multer\<close>

text \<open>\<open>upload.single('foto')\<close> with the disk storage of server.js: a file part is written
  to the upload directory under the name \<open>Date.now() + path.extname(file.originalname)\<close>,
  over a file of that name if there is one, and described in \<open>req.file\<close>.\<close>

definition writeFile :: "string \<Rightarrow> string \<Rightarrow> (string \<times> string) list \<Rightarrow> (string \<times> string) list" where
  "writeFile name bytes dir = (name, bytes) # filter (\<lambda>entry. fst entry \<noteq> name) dir"

definition uploadDir :: "platform \<Rightarrow> string" where
  "uploadDir P = (case variant P of Callback \<Rightarrow> ''uploads'' | Pool \<Rightarrow> dirname P @ ''/uploads'')"

definition upload_single :: "platform \<Rightarrow> env \<Rightarrow> upload option \<Rightarrow> state \<Rightarrow> multer_file option \<times> state" where
  "upload_single P E foto s =
     (case foto of
        None \<Rightarrow> (None, s)
      | Some f \<Rightarrow>
          (let name = Number_toString (Date_now E) @ path_extname P (originalname f)
           in (Some \<lparr>filename = name, file_path = uploadDir P @ ''/'' @ name\<rparr>,
               s\<lparr>uploads := writeFile name (content f) (uploads s)\<rparr>)))"

subsection \<open>The middleware and the handlers\<close>

definition verifyToken :: "platform \<Rightarrow> env \<Rightarrow> string option \<Rightarrow> authData middleware" where
  "verifyToken P E bearerHeader =
     (if falsy bearerHeader
      then Respond \<lparr>code = 403, body = JsonError ''Token tidak ditemukan''\<rparr>
      else case bearerHeader of
        None \<Rightarrow> Respond \<lparr>code = 403, body = JsonError ''Token tidak ditemukan''\<rparr>
      | Some h \<Rightarrow>
          (let token = js_index (js_split (CHR '' '') h) 1
           in case jwt_verify P E token (SECRET_KEY P) of
                Inl err \<Rightarrow> Respond \<lparr>code = 403, body = JsonError ''Token tidak valid''\<rparr>
              | Inr authData \<Rightarrow> Next authData))"

text \<open>\<open>POST /api/register\<close>. \<open>bcrypt.hash\<close> does not fail on a string and the cost 10, so the
  \<open>catch\<close> of the callback variant has no case here.\<close>

fun register :: "platform \<Rightarrow> env \<Rightarrow> string option \<Rightarrow> string option \<Rightarrow> state \<Rightarrow> response \<times> state" where
  "register P E (Some uname) (Some password) s =
     (if uname = [] \<or> password = []
      then (\<lparr>code = 400, body = JsonError ''Username dan Password wajib diisi!''\<rparr>, s)
      else
        (let hashedPassword = bcrypt_hash P password 10 (salt E)
         in case INSERT_INTO_users E uname hashedPassword s of
              Inl err \<Rightarrow>
                if err_code err = ''ER_DUP_ENTRY''
                then (\<lparr>code = 400, body = JsonError ''Username sudah digunakan!''\<rparr>, s)
                else (\<lparr>code = 500, body = JsonError ''Gagal registrasi''\<rparr>, s)
            | Inr s' \<Rightarrow> (\<lparr>code = 201, body = JsonMessage ''Registrasi Berhasil!''\<rparr>, s')))"
| "register P E uname password s =
     (\<lparr>code = 400, body = JsonError ''Username dan Password wajib diisi!''\<rparr>, s)"

text \<open>\<open>POST /api/login\<close>.\<close>

fun login :: "platform \<Rightarrow> env \<Rightarrow> string option \<Rightarrow> string option \<Rightarrow> state \<Rightarrow> response \<times> state" where
  "login P E (Some uname) (Some password) s =
     (if uname = [] \<or> password = []
      then (\<lparr>code = 400, body = JsonError ''Username dan Password wajib diisi!''\<rparr>, s)
      else case SELECT_FROM_users E uname s of
        Inl err \<Rightarrow> (\<lparr>code = 500, body = JsonError ''Server error''\<rparr>, s)
      | Inr [] \<Rightarrow> (\<lparr>code = 401, body = JsonError ''Username tidak ditemukan!''\<rparr>, s)
      | Inr (user # rest) \<Rightarrow>
          if \<not> bcrypt_compare P password (password_hash user)
          then (\<lparr>code = 401, body = JsonError ''Password salah!''\<rparr>, s)
          else
            (let token = jwt_sign P E (user_id user) (username user) (SECRET_KEY P)
             in (\<lparr>code = 200, body = JsonToken ''Login sukses'' token\<rparr>, s)))"
| "login P E uname password s =
     (\<lparr>code = 400, body = JsonError ''Username dan Password wajib diisi!''\<rparr>, s)"

text \<open>The handler of \<open>POST /api/laporan\<close>, after \<open>verifyToken\<close> has set \<open>req.user\<close> and multer
  \<open>req.file\<close>. The callback variant stores \<open>req.file.path\<close>, the pool variant
  \<open>req.file.filename\<close>.\<close>

definition fotoPath :: "platform \<Rightarrow> multer_file \<Rightarrow> string" where
  "fotoPath P f = (case variant P of Callback \<Rightarrow> file_path f | Pool \<Rightarrow> filename f)"

definition simpan_laporan ::
  "platform \<Rightarrow> env \<Rightarrow> authData \<Rightarrow> multer_file option \<Rightarrow> string option \<Rightarrow> string option \<Rightarrow> string option
     \<Rightarrow> state \<Rightarrow> response \<times> state" where
  "simpan_laporan P E user req_file resi lat lon s =
     (if falsy resi \<or> falsy lat \<or> falsy lon
      then (\<lparr>code = 400, body = JsonError ''Data tidak lengkap!''\<rparr>, s)
      else case (req_file, resi, lat, lon) of
        (Some f, Some r, Some la, Some lo) \<Rightarrow>
          (case INSERT_INTO_laporan_pengiriman E (auth_id user) r (fotoPath P f) la lo s of
             Inl err \<Rightarrow> (\<lparr>code = 500, body = JsonError ''Gagal simpan laporan''\<rparr>, s)
           | Inr s' \<Rightarrow> (\<lparr>code = 200, body = JsonMessage ''Laporan berhasil disimpan''\<rparr>, s'))
      | _ \<Rightarrow> (\<lparr>code = 400, body = JsonError ''Foto wajib diupload!''\<rparr>, s))"

text \<open>The handler of \<open>GET /api/laporan\<close>.\<close>

definition history_laporan :: "platform \<Rightarrow> env \<Rightarrow> authData \<Rightarrow> state \<Rightarrow> response \<times> state" where
  "history_laporan P E user s =
     (case SELECT_FROM_laporan_pengiriman E (auth_id user) s of
        Inl err \<Rightarrow> (\<lparr>code = 500, body = JsonError ''Gagal ambil data''\<rparr>, s)
      | Inr rows \<Rightarrow> (\<lparr>code = 200, body = JsonRows rows\<rparr>, s))"

text \<open>\<open>GET /init-db\<close> (pool variant): two statements; the text of the error of the first
  that fails is the response.\<close>

definition init_db :: "platform \<Rightarrow> env \<Rightarrow> state \<Rightarrow> response \<times> state" where
  "init_db P E s =
     (case CREATE_TABLE_IF_NOT_EXISTS E s of
        Inl err \<Rightarrow> (\<lparr>code = 500, body = Text (err_message err)\<rparr>, s)
      | Inr s1 \<Rightarrow>
          (case CREATE_TABLE_IF_NOT_EXISTS E s1 of
             Inl err \<Rightarrow> (\<lparr>code = 500, body = Text (err_message err)\<rparr>, s1)
           | Inr s2 \<Rightarrow>
               (\<lparr>code = 200,
                 body = Text (''Database initialized successfully '' @
                              [CHR 0xF0, CHR 0x9F, CHR 0x9A, CHR 0x80])\<rparr>, s2)))"

subsection \<open>The routes\<close>

text \<open>A route runs its middleware in the order of its registration: \<open>verifyToken\<close>, then
  multer for the upload, then the handler.\<close>

fun handle :: "platform \<Rightarrow> env \<Rightarrow> request \<Rightarrow> state \<Rightarrow> response \<times> state" where
  "handle P E (POST_register uname password) s = register P E uname password s"
| "handle P E (POST_login uname password) s = login P E uname password s"
| "handle P E (POST_laporan authorization resi lat lon foto) s =
     (case verifyToken P E authorization of
        Respond res \<Rightarrow> (res, s)
      | Next user \<Rightarrow>
          (case upload_single P E foto s of
             (req_file, s') \<Rightarrow> simpan_laporan P E user req_file resi lat lon s'))"
| "handle P E (GET_laporan authorization) s =
     (case verifyToken P E authorization of
        Respond res \<Rightarrow> (res, s)
      | Next user \<Rightarrow> history_laporan P E user s)"
| "handle P E GET_root s =
     (case variant P of
        Callback \<Rightarrow> (\<lparr>code = 404, body = CannotGet\<rparr>, s)
      | Pool \<Rightarrow> (\<lparr>code = 200, body = Text ''API GEO PATROL RUNNING''\<rparr>, s))"
| "handle P E GET_init_db s =
     (case variant P of
        Callback \<Rightarrow> (\<lparr>code = 404, body = CannotGet\<rparr>, s)
      | Pool \<Rightarrow> init_db P E s)"

subsection \<open>A platform to run the model on\<close>

text \<open>Small executable stand-ins for the libraries: a hash that keeps the salt and the
  first 72 characters of the password (as bcrypt reads no more than 72), a token of five
  dot-separated fields, a keyed hash that is a function of the key and the payload, and
  the extension after the last dot. They are used for the examples only; no theorem
  about the handlers depends on them.\<close>

definition test_extname :: "string \<Rightarrow> string" where
  "test_extname name =
     (if CHR ''.'' \<in> set name then CHR ''.'' # last (js_split (CHR ''.'') name) else [])"

definition test_hash :: "string \<Rightarrow> nat \<Rightarrow> string \<Rightarrow> string" where
  "test_hash d r sl = ''$2b$'' @ Number_toString r @ ''$'' @ sl @ ''$'' @ rev (take 72 d)"

definition test_compare :: "string \<Rightarrow> string \<Rightarrow> bool" where
  "test_compare d h =
     (case js_split (CHR ''$'') h of
        [e, v, r, sl, x] \<Rightarrow> x = rev (take 72 d)
      | _ \<Rightarrow> False)"

definition parse_digits :: "string \<Rightarrow> nat option" where
  "parse_digits ds =
     (if ds \<noteq> [] \<and> list_all (\<lambda>c. c \<in> set ''0123456789'') ds
      then Some (foldl (\<lambda>n c. 10 * n + (of_char c - 48)) 0 ds)
      else None)"

definition test_encode :: "authData \<times> string \<Rightarrow> string" where
  "test_encode x =
     (case x of (p, sg) \<Rightarrow>
        Number_toString (auth_id p) @ ''.'' @ auth_username p @ ''.'' @
        Number_toString (iat p) @ ''.'' @ Number_toString (exp p) @ ''.'' @ sg)"

definition test_decode :: "string \<Rightarrow> (authData \<times> string) option" where
  "test_decode t =
     (case js_split (CHR ''.'') t of
        [a, u, b, c, sg] \<Rightarrow>
          (case (parse_digits a, parse_digits b, parse_digits c) of
             (Some i, Some x, Some y) \<Rightarrow>
               Some (\<lparr>auth_id = i, auth_username = u, iat = x, exp = y\<rparr>, sg)
           | _ \<Rightarrow> None)
      | _ \<Rightarrow> None)"

definition test_hmac :: "string \<Rightarrow> authData \<Rightarrow> string" where
  "test_hmac key p =
     rev key @ ''-'' @ Number_toString (auth_id p + iat p + exp p + length (auth_username p))"

definition test_platform :: "variant \<Rightarrow> platform" where
  "test_platform v =
     \<lparr>variant = v, JWT_SECRET = None, dirname = ''/app'',
      bcrypt_hash = test_hash, bcrypt_compare = test_compare,
      jwt_encode = test_encode, jwt_decode = test_decode, jwt_hmac = test_hmac,
      path_extname = test_extname\<rparr>"

text \<open>A request at clock \<open>t\<close> (milliseconds) with the database answering, the same with the
  database failing, an empty database, and the token that \<open>login\<close> issues on the test
  platform to courier 1, \<open>alice\<close>, in second 2.\<close>

definition at :: "nat \<Rightarrow> env" where
  "at t = \<lparr>Date_now = t, salt = ''N9qo8uLO'', db_fault = None\<rparr>"

definition failing_at :: "nat \<Rightarrow> env" where
  "failing_at t =
     \<lparr>Date_now = t, salt = ''N9qo8uLO'',
      db_fault = Some \<lparr>err_code = ''ECONNREFUSED'',
                       err_message = ''connect ECONNREFUSED 10.0.0.5:3306''\<rparr>\<rparr>"

definition empty_state :: state where
  "empty_state = \<lparr>users = [], laporan_pengiriman = [], uploads = []\<rparr>"

definition alice :: authData where
  "alice = \<lparr>auth_id = 1, auth_username = ''alice'', iat = 2, exp = 3602\<rparr>"

definition alice_token :: string where
  "alice_token = ''1.alice.2.3602.seska_aisahar_icnuk-3610''"

definition bukti :: upload where
  "bukti = \<lparr>originalname = ''bukti.jpg'', content = ''JFIF''\<rparr>"

text \<open>The database after \<open>alice\<close> has registered with the password \<open>secret123\<close> in
  second 1 on the test platform.\<close>

definition alice_registered :: state where
  "alice_registered =
     \<lparr>users = [\<lparr>user_id = 1, username = ''alice'',
                 password_hash = ''$2b$10$N9qo8uLO$321terces'', user_created_at = 1\<rparr>],
      laporan_pengiriman = [], uploads = []\<rparr>"

text \<open>Report rows: two of courier 1 from the same second, one of courier 2 and a later
  one of courier 1; and the states that hold the first, the first two, and all four.\<close>

definition report1 :: laporan_row where
  "report1 = \<lparr>laporan_id = 1, id_kurir = 1, no_resi = ''RESI1'', foto_path = ''5000.jpg'',
              latitude = ''-6.2'', longitude = ''106.8'', status = ''Terkirim'', created_at = 5\<rparr>"

definition report2 :: laporan_row where
  "report2 = \<lparr>laporan_id = 2, id_kurir = 1, no_resi = ''RESI2'', foto_path = ''5400.jpg'',
              latitude = ''-6.2'', longitude = ''106.8'', status = ''Terkirim'', created_at = 5\<rparr>"

definition report3 :: laporan_row where
  "report3 = \<lparr>laporan_id = 3, id_kurir = 2, no_resi = ''RESI3'', foto_path = ''6100.png'',
              latitude = ''-7.3'', longitude = ''112.7'', status = ''Terkirim'', created_at = 6\<rparr>"

definition report4 :: laporan_row where
  "report4 = \<lparr>laporan_id = 4, id_kurir = 1, no_resi = ''RESI4'', foto_path = ''7000.jpg'',
              latitude = ''-6.2'', longitude = ''106.8'', status = ''Terkirim'', created_at = 7\<rparr>"

definition one_report :: state where
  "one_report =
     \<lparr>users = users alice_registered, laporan_pengiriman = [report1],
      uploads = [(''5000.jpg'', ''JFIF'')]\<rparr>"

definition two_reports :: state where
  "two_reports =
     \<lparr>users = users alice_registered, laporan_pengiriman = [report1, report2],
      uploads = [(''5400.jpg'', ''JFIF''), (''5000.jpg'', ''JFIF'')]\<rparr>"

definition four_reports :: state where
  "four_reports =
     \<lparr>users = users alice_registered,
      laporan_pengiriman = [report1, report2, report3, report4],
      uploads = [(''7000.jpg'', ''JFIF''), (''6100.png'', ''PNG''), (''5400.jpg'', ''JFIF''),
                 (''5000.jpg'', ''JFIF'')]\<rparr>"

section \<open>Properties\<close>

subsection \<open>Splitting the header\<close>

lemma js_split_no_sep: "sep \<notin> set h \<Longrightarrow> js_split sep h = [h]"
  by (induction h) auto

lemma js_split_first: "sep \<notin> set a \<Longrightarrow> js_split sep (a @ sep # t) = a # js_split sep t"
  by (induction a) auto

subsection \<open>The token check\<close>

lemma verifyToken_missing:
  "falsy hdr \<Longrightarrow>
   verifyToken P E hdr = Respond \<lparr>code = 403, body = JsonError ''Token tidak ditemukan''\<rparr>"
  by (simp add: verifyToken_def)

lemma verifyToken_present:
  "h \<noteq> [] \<Longrightarrow> verifyToken P E (Some h) =
     (case jwt_verify P E (js_index (js_split (CHR '' '') h) 1) (SECRET_KEY P) of
        Inl err \<Rightarrow> Respond \<lparr>code = 403, body = JsonError ''Token tidak valid''\<rparr>
      | Inr authData \<Rightarrow> Next authData)"
  by (simp add: verifyToken_def)

lemma alice_token_verifies:
  "t < 3602000 \<Longrightarrow>
   verifyToken (test_platform v) (at t) (Some (''Bearer '' @ alice_token)) = Next alice"
proof -
  assume t: "t < 3602000"
  have dec: "test_decode alice_token = Some (alice, ''seska_aisahar_icnuk-3610'')"
    by code_simp
  have mac: "test_hmac ''kunci_rahasia_akses'' alice = ''seska_aisahar_icnuk-3610''"
    by code_simp
  have key: "SECRET_KEY (test_platform v) = ''kunci_rahasia_akses''"
    by (cases v) (simp_all add: SECRET_KEY_def test_platform_def)
  have word: "js_index (js_split (CHR '' '') (''Bearer '' @ alice_token)) 1 = Some alice_token"
    by code_simp
  have ne: "alice_token \<noteq> []"
    by (simp add: alice_token_def)
  have "exp alice = 3602"
    by (simp add: alice_def)
  moreover have "t div 1000 < 3602"
    using t by simp
  ultimately have live: "\<not> exp alice \<le> Date_now (at t) div 1000"
    by (simp add: at_def)
  have ver: "jwt_verify (test_platform v) (at t) (Some alice_token) ''kunci_rahasia_akses'' = Inr alice"
    using live ne by (simp add: jwt_verify_def test_platform_def dec mac)
  have "verifyToken (test_platform v) (at t) (Some (''Bearer '' @ alice_token)) =
     (case jwt_verify (test_platform v) (at t)
             (js_index (js_split (CHR '' '') (''Bearer '' @ alice_token)) 1)
             (SECRET_KEY (test_platform v)) of
        Inl err \<Rightarrow> Respond \<lparr>code = 403, body = JsonError ''Token tidak valid''\<rparr>
      | Inr authData \<Rightarrow> Next authData)"
    by (rule verifyToken_present) simp
  also have "\<dots> = Next alice"
    unfolding word key ver by simp
  finally show ?thesis .
qed

subsection \<open>Requests without a token\<close>

text \<open>
  C8. A request to a protected route (\<open>POST /api/laporan\<close>, \<open>GET /api/laporan\<close>) that has
  no \<open>Authorization\<close> header is answered with 403, and the state it returns is the state
  it was given: no report row is inserted and no photo is written.
\<close>

theorem C8_no_authorization_header:
  "handle P E (POST_laporan None resi lat lon foto) s =
     (\<lparr>code = 403, body = JsonError ''Token tidak ditemukan''\<rparr>, s)
   \<and> handle P E (GET_laporan None) s =
     (\<lparr>code = 403, body = JsonError ''Token tidak ditemukan''\<rparr>, s)"
  by (simp add: verifyToken_def)

subsection \<open>Validation of a report\<close>

lemma simpan_laporan_incomplete:
  "falsy resi \<or> falsy lat \<or> falsy lon \<Longrightarrow>
   simpan_laporan P E user f resi lat lon s =
     (\<lparr>code = 400, body = JsonError ''Data tidak lengkap!''\<rparr>, s)"
  by (auto simp: simpan_laporan_def)

lemma simpan_laporan_no_photo:
  "\<not> falsy resi \<Longrightarrow> \<not> falsy lat \<Longrightarrow> \<not> falsy lon \<Longrightarrow>
   simpan_laporan P E user None resi lat lon s =
     (\<lparr>code = 400, body = JsonError ''Foto wajib diupload!''\<rparr>, s)"
  by (simp add: simpan_laporan_def)

lemma upload_single_tables:
  "upload_single P E foto s = (f, s') \<Longrightarrow>
     laporan_pengiriman s' = laporan_pengiriman s \<and> users s' = users s
     \<and> (f = None \<longleftrightarrow> foto = None)"
  by (auto simp: upload_single_def Let_def split: option.splits)

text \<open>
  C4. A report in which \<open>no_resi\<close>, \<open>latitude\<close> or \<open>longitude\<close> is missing or empty is
  answered with 400 \<open>Data tidak lengkap!\<close> (InvalidInput); a report with the three fields
  but no photo is answered with 400 \<open>Foto wajib diupload!\<close> (MissingPhoto). In both cases
  table \<open>laporan_pengiriman\<close> is as before. This holds of the handler for every
  authenticated courier, and of the whole route for every request whose token verifies.
\<close>

theorem C4_report_validation:
  "(falsy resi \<or> falsy lat \<or> falsy lon \<longrightarrow>
      simpan_laporan P E user f resi lat lon s =
        (\<lparr>code = 400, body = JsonError ''Data tidak lengkap!''\<rparr>, s)
      \<and> (verifyToken P E authorization = Next user \<longrightarrow>
           fst (handle P E (POST_laporan authorization resi lat lon foto) s) =
             \<lparr>code = 400, body = JsonError ''Data tidak lengkap!''\<rparr>
           \<and> laporan_pengiriman (snd (handle P E (POST_laporan authorization resi lat lon foto) s)) =
             laporan_pengiriman s))
   \<and> (\<not> falsy resi \<and> \<not> falsy lat \<and> \<not> falsy lon \<longrightarrow>
      simpan_laporan P E user None resi lat lon s =
        (\<lparr>code = 400, body = JsonError ''Foto wajib diupload!''\<rparr>, s)
      \<and> (verifyToken P E authorization = Next user \<longrightarrow>
           handle P E (POST_laporan authorization resi lat lon None) s =
             (\<lparr>code = 400, body = JsonError ''Foto wajib diupload!''\<rparr>, s)))"
proof (intro conjI impI)
  assume bad: "falsy resi \<or> falsy lat \<or> falsy lon"
  show "simpan_laporan P E user f resi lat lon s =
        (\<lparr>code = 400, body = JsonError ''Data tidak lengkap!''\<rparr>, s)"
    using bad by (rule simpan_laporan_incomplete)
  assume tok: "verifyToken P E authorization = Next user"
  obtain rf s' where up: "upload_single P E foto s = (rf, s')"
    by (cases "upload_single P E foto s")
  have run: "handle P E (POST_laporan authorization resi lat lon foto) s =
               (\<lparr>code = 400, body = JsonError ''Data tidak lengkap!''\<rparr>, s')"
    using tok up bad by (simp add: simpan_laporan_incomplete)
  show "fst (handle P E (POST_laporan authorization resi lat lon foto) s) =
          \<lparr>code = 400, body = JsonError ''Data tidak lengkap!''\<rparr>"
    unfolding run by simp
  show "laporan_pengiriman (snd (handle P E (POST_laporan authorization resi lat lon foto) s)) =
          laporan_pengiriman s"
    unfolding run using upload_single_tables [OF up] by simp
next
  assume ok: "\<not> falsy resi \<and> \<not> falsy lat \<and> \<not> falsy lon"
  show "simpan_laporan P E user None resi lat lon s =
        (\<lparr>code = 400, body = JsonError ''Foto wajib diupload!''\<rparr>, s)"
    using ok by (simp add: simpan_laporan_no_photo)
  assume tok: "verifyToken P E authorization = Next user"
  show "handle P E (POST_laporan authorization resi lat lon None) s =
          (\<lparr>code = 400, body = JsonError ''Foto wajib diupload!''\<rparr>, s)"
    using tok ok by (simp add: upload_single_def simpan_laporan_no_photo)
qed

text \<open>The theorem at work: with the token of courier 1, a report without its latitude
  (the photo is there) and a complete report without a photo, on the empty database.\<close>

theorem C4_report_validation_witness:
  "fst (handle (test_platform Callback) (at 5000)
          (POST_laporan (Some (''Bearer '' @ alice_token)) (Some ''RESI1'') None (Some ''106.8'')
             (Some bukti)) empty_state)
     = \<lparr>code = 400, body = JsonError ''Data tidak lengkap!''\<rparr>
   \<and> laporan_pengiriman (snd (handle (test_platform Callback) (at 5000)
          (POST_laporan (Some (''Bearer '' @ alice_token)) (Some ''RESI1'') None (Some ''106.8'')
             (Some bukti)) empty_state))
     = laporan_pengiriman empty_state
   \<and> handle (test_platform Callback) (at 5000)
          (POST_laporan (Some (''Bearer '' @ alice_token)) (Some ''RESI1'') (Some ''-6.2'')
             (Some ''106.8'') None) empty_state
     = (\<lparr>code = 400, body = JsonError ''Foto wajib diupload!''\<rparr>, empty_state)"
proof -
  have tok: "verifyToken (test_platform Callback) (at 5000) (Some (''Bearer '' @ alice_token))
               = Next alice"
    by (rule alice_token_verifies) simp
  have missing: "falsy (Some ''RESI1'') \<or> falsy None \<or> falsy (Some ''106.8'')"
    by simp
  have complete: "\<not> falsy (Some ''RESI1'') \<and> \<not> falsy (Some ''-6.2'') \<and> \<not> falsy (Some ''106.8'')"
    by simp
  from C4_report_validation
         [where resi = "Some ''RESI1''" and lat = None and lon = "Some ''106.8''"
            and P = "test_platform Callback" and E = "at 5000" and user = alice
            and s = empty_state and authorization = "Some (''Bearer '' @ alice_token)"
            and foto = "Some bukti"]
       missing tok
  have first: "fst (handle (test_platform Callback) (at 5000)
          (POST_laporan (Some (''Bearer '' @ alice_token)) (Some ''RESI1'') None (Some ''106.8'')
             (Some bukti)) empty_state)
     = \<lparr>code = 400, body = JsonError ''Data tidak lengkap!''\<rparr>
   \<and> laporan_pengiriman (snd (handle (test_platform Callback) (at 5000)
          (POST_laporan (Some (''Bearer '' @ alice_token)) (Some ''RESI1'') None (Some ''106.8'')
             (Some bukti)) empty_state))
     = laporan_pengiriman empty_state"
    by blast
  from C4_report_validation
         [where resi = "Some ''RESI1''" and lat = "Some ''-6.2''" and lon = "Some ''106.8''"
            and P = "test_platform Callback" and E = "at 5000" and user = alice
            and s = empty_state and authorization = "Some (''Bearer '' @ alice_token)"]
       complete tok
  have second: "handle (test_platform Callback) (at 5000)
          (POST_laporan (Some (''Bearer '' @ alice_token)) (Some ''RESI1'') (Some ''-6.2'')
             (Some ''106.8'') None) empty_state
     = (\<lparr>code = 400, body = JsonError ''Foto wajib diupload!''\<rparr>, empty_state)"
    by blast
  from first second show ?thesis
    by blast
qed

lemma jwt_verify_cases:
  "jwt_verify P E (Some t) key =
     (case jwt_decode P t of
        None \<Rightarrow> Inl (JsonWebTokenError (if t = [] then ''jwt must be provided'' else ''jwt malformed''))
      | Some (payload, signature) \<Rightarrow>
          if t = [] then Inl (JsonWebTokenError ''jwt must be provided'')
          else if signature \<noteq> jwt_hmac P key payload
          then Inl (JsonWebTokenError ''invalid signature'')
          else if exp payload \<le> Date_now E div 1000 then Inl TokenExpiredError
          else Inr payload)"
  by (simp add: jwt_verify_def split: option.splits)

lemma verifyToken_second_word:
  "h \<noteq> [] \<Longrightarrow> js_index (js_split (CHR '' '') h) 1 = Some t \<Longrightarrow>
   verifyToken P E (Some h) =
     (case jwt_verify P E (Some t) (SECRET_KEY P) of
        Inl err \<Rightarrow> Respond \<lparr>code = 403, body = JsonError ''Token tidak valid''\<rparr>
      | Inr authData \<Rightarrow> Next authData)"
  by (simp add: verifyToken_def)

text \<open>
  C6. \<open>verifyToken\<close> on a protected request: without a header (or with an empty one) it
  answers 403 \<open>Token tidak ditemukan\<close> (MissingToken). With a header whose second word is
  the token \<open>t\<close>, it answers 403 \<open>Token tidak valid\<close> (InvalidToken) when \<open>t\<close> does not
  decode (malformed), when its keyed hash is not the one of the secret (invalid
  signature) and when the clock has reached \<open>exp\<close> (expired). Otherwise it passes the
  payload of the token, with the courier's id and username, to the handler of this
  request: the route is the handler run on that payload. Nothing is kept: \<open>verifyToken\<close>
  neither reads nor returns the state.
\<close>

theorem C6_verifyToken:
  "(falsy authorization \<longrightarrow>
      verifyToken P E authorization =
        Respond \<lparr>code = 403, body = JsonError ''Token tidak ditemukan''\<rparr>)
   \<and> (h \<noteq> [] \<and> js_index (js_split (CHR '' '') h) 1 = Some t \<longrightarrow>
        (jwt_decode P t = None \<longrightarrow>
           verifyToken P E (Some h) =
             Respond \<lparr>code = 403, body = JsonError ''Token tidak valid''\<rparr>)
      \<and> (jwt_decode P t = Some (payload, signature) \<longrightarrow>
           (signature \<noteq> jwt_hmac P (SECRET_KEY P) payload \<longrightarrow>
              verifyToken P E (Some h) =
                Respond \<lparr>code = 403, body = JsonError ''Token tidak valid''\<rparr>)
         \<and> (exp payload \<le> Date_now E div 1000 \<longrightarrow>
              verifyToken P E (Some h) =
                Respond \<lparr>code = 403, body = JsonError ''Token tidak valid''\<rparr>)
         \<and> (t \<noteq> [] \<and> signature = jwt_hmac P (SECRET_KEY P) payload
              \<and> Date_now E div 1000 < exp payload \<longrightarrow>
              verifyToken P E (Some h) = Next payload
              \<and> handle P E (GET_laporan (Some h)) s = history_laporan P E payload s
              \<and> handle P E (POST_laporan (Some h) resi lat lon foto) s =
                  simpan_laporan P E payload (fst (upload_single P E foto s)) resi lat lon
                    (snd (upload_single P E foto s)))))"
proof (intro conjI impI)
  assume "falsy authorization"
  then show "verifyToken P E authorization =
        Respond \<lparr>code = 403, body = JsonError ''Token tidak ditemukan''\<rparr>"
    by (rule verifyToken_missing)
next
  assume hdr: "h \<noteq> [] \<and> js_index (js_split (CHR '' '') h) 1 = Some t"
  assume "jwt_decode P t = None"
  then show "verifyToken P E (Some h) =
             Respond \<lparr>code = 403, body = JsonError ''Token tidak valid''\<rparr>"
    using hdr by (simp add: verifyToken_second_word jwt_verify_cases)
next
  assume hdr: "h \<noteq> [] \<and> js_index (js_split (CHR '' '') h) 1 = Some t"
  assume dec: "jwt_decode P t = Some (payload, signature)"
  assume "signature \<noteq> jwt_hmac P (SECRET_KEY P) payload"
  then show "verifyToken P E (Some h) =
             Respond \<lparr>code = 403, body = JsonError ''Token tidak valid''\<rparr>"
    using hdr dec by (simp add: verifyToken_second_word jwt_verify_cases)
next
  assume hdr: "h \<noteq> [] \<and> js_index (js_split (CHR '' '') h) 1 = Some t"
  assume dec: "jwt_decode P t = Some (payload, signature)"
  assume "exp payload \<le> Date_now E div 1000"
  then show "verifyToken P E (Some h) =
             Respond \<lparr>code = 403, body = JsonError ''Token tidak valid''\<rparr>"
    using hdr dec by (simp add: verifyToken_second_word jwt_verify_cases)
next
  assume hdr: "h \<noteq> [] \<and> js_index (js_split (CHR '' '') h) 1 = Some t"
  assume dec: "jwt_decode P t = Some (payload, signature)"
  assume good: "t \<noteq> [] \<and> signature = jwt_hmac P (SECRET_KEY P) payload
              \<and> Date_now E div 1000 < exp payload"
  show pass: "verifyToken P E (Some h) = Next payload"
    using hdr dec good by (simp add: verifyToken_second_word jwt_verify_cases)
  show "handle P E (GET_laporan (Some h)) s = history_laporan P E payload s"
    by (simp add: pass)
  show "handle P E (POST_laporan (Some h) resi lat lon foto) s =
          simpan_laporan P E payload (fst (upload_single P E foto s)) resi lat lon
            (snd (upload_single P E foto s))"
    by (simp add: pass split: prod.splits)
qed

text \<open>The theorem at work on the test platform: no header; a second word that is no
  token; a token with a foreign keyed hash; the token of courier 1 at its expiry and
  before it.\<close>

theorem C6_verifyToken_witness:
  "verifyToken (test_platform Pool) (at 5000) None =
     Respond \<lparr>code = 403, body = JsonError ''Token tidak ditemukan''\<rparr>
   \<and> verifyToken (test_platform Pool) (at 5000) (Some ''Bearer garbage'') =
     Respond \<lparr>code = 403, body = JsonError ''Token tidak valid''\<rparr>
   \<and> verifyToken (test_platform Pool) (at 5000) (Some ''Bearer 1.alice.2.3602.forged'') =
     Respond \<lparr>code = 403, body = JsonError ''Token tidak valid''\<rparr>
   \<and> verifyToken (test_platform Pool) (at 3602000) (Some (''Bearer '' @ alice_token)) =
     Respond \<lparr>code = 403, body = JsonError ''Token tidak valid''\<rparr>
   \<and> verifyToken (test_platform Pool) (at 3601999) (Some (''Bearer '' @ alice_token)) =
     Next alice"
proof -
  have key: "SECRET_KEY (test_platform Pool) = ''kunci_rahasia_akses''"
    by (simp add: SECRET_KEY_def test_platform_def)
  have dec: "jwt_decode (test_platform Pool) alice_token = Some (alice, ''seska_aisahar_icnuk-3610'')"
    unfolding test_platform_def by code_simp
  have mac: "jwt_hmac (test_platform Pool) (SECRET_KEY (test_platform Pool)) alice
               = ''seska_aisahar_icnuk-3610''"
    unfolding key unfolding test_platform_def by code_simp
  have word: "''Bearer '' @ alice_token \<noteq> []
     \<and> js_index (js_split (CHR '' '') (''Bearer '' @ alice_token)) 1 = Some alice_token"
    by code_simp
  have c1: "verifyToken (test_platform Pool) (at 5000) None =
     Respond \<lparr>code = 403, body = JsonError ''Token tidak ditemukan''\<rparr>"
    using C6_verifyToken [where authorization = None and P = "test_platform Pool" and E = "at 5000"]
    by simp
  have "''Bearer garbage'' \<noteq> []
     \<and> js_index (js_split (CHR '' '') ''Bearer garbage'') 1 = Some ''garbage''"
    by code_simp
  moreover have "jwt_decode (test_platform Pool) ''garbage'' = None"
    unfolding test_platform_def by code_simp
  ultimately have c2: "verifyToken (test_platform Pool) (at 5000) (Some ''Bearer garbage'') =
     Respond \<lparr>code = 403, body = JsonError ''Token tidak valid''\<rparr>"
    using C6_verifyToken [where h = "''Bearer garbage''" and t = "''garbage''"
                            and P = "test_platform Pool" and E = "at 5000"]
    by blast
  have "''Bearer 1.alice.2.3602.forged'' \<noteq> []
     \<and> js_index (js_split (CHR '' '') ''Bearer 1.alice.2.3602.forged'') 1
         = Some ''1.alice.2.3602.forged''"
    by code_simp
  moreover have "jwt_decode (test_platform Pool) ''1.alice.2.3602.forged'' = Some (alice, ''forged'')"
    unfolding test_platform_def by code_simp
  moreover have "''forged'' \<noteq> jwt_hmac (test_platform Pool) (SECRET_KEY (test_platform Pool)) alice"
    unfolding mac by simp
  ultimately have c3:
    "verifyToken (test_platform Pool) (at 5000) (Some ''Bearer 1.alice.2.3602.forged'') =
     Respond \<lparr>code = 403, body = JsonError ''Token tidak valid''\<rparr>"
    using C6_verifyToken [where h = "''Bearer 1.alice.2.3602.forged''"
                            and t = "''1.alice.2.3602.forged''"
                            and payload = alice and signature = "''forged''"
                            and P = "test_platform Pool" and E = "at 5000"]
    by blast
  have "exp alice \<le> Date_now (at 3602000) div 1000"
    by (simp add: alice_def at_def)
  then have c4:
    "verifyToken (test_platform Pool) (at 3602000) (Some (''Bearer '' @ alice_token)) =
     Respond \<lparr>code = 403, body = JsonError ''Token tidak valid''\<rparr>"
    using word dec
      C6_verifyToken [where h = "''Bearer '' @ alice_token" and t = alice_token
                        and payload = alice and signature = "''seska_aisahar_icnuk-3610''"
                        and P = "test_platform Pool" and E = "at 3602000"]
    by blast
  have "Date_now (at 3601999) div 1000 < exp alice"
    by (simp add: alice_def at_def)
  moreover have "alice_token \<noteq> []"
    by (simp add: alice_token_def)
  ultimately have c5:
    "verifyToken (test_platform Pool) (at 3601999) (Some (''Bearer '' @ alice_token)) = Next alice"
    using word dec mac
      C6_verifyToken [where h = "''Bearer '' @ alice_token" and t = alice_token
                        and payload = alice and signature = "''seska_aisahar_icnuk-3610''"
                        and P = "test_platform Pool" and E = "at 3601999"]
    by metis
  from c1 c2 c3 c4 c5 show ?thesis
    by blast
qed

lemma verifyToken_same_word:
  "h \<noteq> [] \<Longrightarrow> h' \<noteq> [] \<Longrightarrow>
   js_index (js_split (CHR '' '') h) 1 = js_index (js_split (CHR '' '') h') 1 \<Longrightarrow>
   verifyToken P E (Some h) = verifyToken P E (Some h')"
  by (simp add: verifyToken_present)

text \<open>
  C10. For a header that is there, \<open>verifyToken\<close> decides by the second space-separated
  word alone: two non-empty headers with the same second word (or both without one) get
  the same outcome; the first word is not looked at, so a header \<open>scheme t\<close> gets the
  outcome of \<open>Bearer t\<close> whatever \<open>scheme\<close> without a space is; and a non-empty header
  without a space is answered with 403 \<open>Token tidak valid\<close> (InvalidToken), not with the
  answer for a missing token.
\<close>

theorem C10_second_word_decides:
  "(h \<noteq> [] \<and> h' \<noteq> []
      \<and> js_index (js_split (CHR '' '') h) 1 = js_index (js_split (CHR '' '') h') 1 \<longrightarrow>
      verifyToken P E (Some h) = verifyToken P E (Some h'))
   \<and> (CHR '' '' \<notin> set scheme \<longrightarrow>
      verifyToken P E (Some (scheme @ '' '' @ t)) = verifyToken P E (Some (''Bearer '' @ t)))
   \<and> (h \<noteq> [] \<and> CHR '' '' \<notin> set h \<longrightarrow>
      verifyToken P E (Some h) =
        Respond \<lparr>code = 403, body = JsonError ''Token tidak valid''\<rparr>)"
proof (intro conjI impI)
  assume "h \<noteq> [] \<and> h' \<noteq> []
      \<and> js_index (js_split (CHR '' '') h) 1 = js_index (js_split (CHR '' '') h') 1"
  then show "verifyToken P E (Some h) = verifyToken P E (Some h')"
    by (simp add: verifyToken_same_word)
next
  assume scheme: "CHR '' '' \<notin> set scheme"
  have bearer: "CHR '' '' \<notin> set ''Bearer''"
    by simp
  have "js_split (CHR '' '') (scheme @ CHR '' '' # t) = scheme # js_split (CHR '' '') t"
    using scheme by (rule js_split_first)
  moreover have "js_split (CHR '' '') (''Bearer'' @ CHR '' '' # t) = ''Bearer'' # js_split (CHR '' '') t"
    using bearer by (rule js_split_first)
  ultimately have word: "js_index (js_split (CHR '' '') (scheme @ '' '' @ t)) 1
                 = js_index (js_split (CHR '' '') (''Bearer '' @ t)) 1"
    by simp
  have there: "scheme @ '' '' @ t \<noteq> []" "''Bearer '' @ t \<noteq> []"
    by simp_all
  show "verifyToken P E (Some (scheme @ '' '' @ t)) = verifyToken P E (Some (''Bearer '' @ t))"
    using there word by (rule verifyToken_same_word)
next
  assume h: "h \<noteq> [] \<and> CHR '' '' \<notin> set h"
  then have "js_index (js_split (CHR '' '') h) 1 = None"
    by (simp add: js_split_no_sep)
  then show "verifyToken P E (Some h) =
        Respond \<lparr>code = 403, body = JsonError ''Token tidak valid''\<rparr>"
    using h by (simp add: verifyToken_present jwt_verify_def)
qed

text \<open>The theorem at work: the token of courier 1 after the word \<open>Basic\<close> is accepted as it
  is after \<open>Bearer\<close>, and the header \<open>Bearer\<close> alone is answered with 403
  \<open>Token tidak valid\<close>.\<close>

theorem C10_second_word_decides_witness:
  "verifyToken (test_platform Callback) (at 5000) (Some (''Basic'' @ '' '' @ alice_token)) = Next alice
   \<and> verifyToken (test_platform Callback) (at 5000) (Some ''Bearer'') =
       Respond \<lparr>code = 403, body = JsonError ''Token tidak valid''\<rparr>"
proof -
  have "CHR '' '' \<notin> set ''Basic''"
    by simp
  then have "verifyToken (test_platform Callback) (at 5000) (Some (''Basic'' @ '' '' @ alice_token))
           = verifyToken (test_platform Callback) (at 5000) (Some (''Bearer '' @ alice_token))"
    using C10_second_word_decides [where scheme = "''Basic''" and t = alice_token
                                     and P = "test_platform Callback" and E = "at 5000"]
    by blast
  moreover have "verifyToken (test_platform Callback) (at 5000) (Some (''Bearer '' @ alice_token))
           = Next alice"
    by (rule alice_token_verifies) simp
  moreover have "''Bearer'' \<noteq> [] \<and> CHR '' '' \<notin> set ''Bearer''"
    by simp
  then have "verifyToken (test_platform Callback) (at 5000) (Some ''Bearer'') =
       Respond \<lparr>code = 403, body = JsonError ''Token tidak valid''\<rparr>"
    using C10_second_word_decides [where h = "''Bearer''"
                                     and P = "test_platform Callback" and E = "at 5000"]
    by blast
  ultimately show ?thesis
    by simp
qed

subsection \<open>Registration and login\<close>















lemma register_store_failure:
  "u \<noteq> [] \<Longrightarrow> pw \<noteq> [] \<Longrightarrow> db_fault E = Some err \<Longrightarrow> err_code err \<noteq> ''ER_DUP_ENTRY'' \<Longrightarrow>
   register P E (Some u) (Some pw) s = (\<lparr>code = 500, body = JsonError ''Gagal registrasi''\<rparr>, s)"
  by (simp add: INSERT_INTO_users_def)











subsection \<open>The history of a courier\<close>

lemma ORDER_BY_created_at_DESC_mset: "mset (ORDER_BY_created_at_DESC rows) = mset rows"
  by (simp add: ORDER_BY_created_at_DESC_def)

lemma ORDER_BY_created_at_DESC_sorted:
  "sorted_wrt (\<lambda>a b. created_at b \<le> created_at a) (ORDER_BY_created_at_DESC rows)"
proof -
  have "sorted (map (\<lambda>r. - int (created_at r)) (ORDER_BY_created_at_DESC rows))"
    unfolding ORDER_BY_created_at_DESC_def by (rule sorted_sort_key)
  then have "sorted_wrt (\<lambda>a b. - int (created_at a) \<le> - int (created_at b))
               (ORDER_BY_created_at_DESC rows)"
    by (simp add: sorted_map)
  then show ?thesis
    by simp
qed

lemma history_laporan_rows:
  "db_fault E = None \<Longrightarrow>
   history_laporan P E user s =
     (\<lparr>code = 200,
       body = JsonRows (ORDER_BY_created_at_DESC
                (filter (\<lambda>r. id_kurir r = auth_id user) (laporan_pengiriman s)))\<rparr>, s)"
  by (simp add: history_laporan_def SELECT_FROM_laporan_pengiriman_def)

lemma submit_first:
  "handle (test_platform Pool) (at 5000)
     (POST_laporan (Some (''Bearer '' @ alice_token)) (Some ''RESI1'') (Some ''-6.2'')
        (Some ''106.8'') (Some bukti)) alice_registered
   = (\<lparr>code = 200, body = JsonMessage ''Laporan berhasil disimpan''\<rparr>, one_report)"
  by code_simp

lemma submit_second:
  "handle (test_platform Pool) (at 5400)
     (POST_laporan (Some (''Bearer '' @ alice_token)) (Some ''RESI2'') (Some ''-6.2'')
        (Some ''106.8'') (Some bukti)) one_report
   = (\<lparr>code = 200, body = JsonMessage ''Laporan berhasil disimpan''\<rparr>, two_reports)"
  by code_simp

lemma history_of_two:
  "handle (test_platform Pool) (at 9000) (GET_laporan (Some (''Bearer '' @ alice_token)))
     two_reports
   = (\<lparr>code = 200, body = JsonRows [report1, report2]\<rparr>, two_reports)"
  by code_simp

text \<open>
  C5, as the code has it. While the database answers, the history of a courier is
  answered with 200 and an array \<open>out\<close> that holds each row of \<open>laporan_pengiriman\<close> with
  the courier's id as often as the table does, and no other row; \<open>created_at\<close> never
  rises along \<open>out\<close>; and \<open>out\<close> is empty when the courier has no row. The state is as
  before.
\<close>

theorem C5_history:
  "db_fault E = None
   \<and> mine = filter (\<lambda>r. id_kurir r = auth_id user) (laporan_pengiriman s)
   \<and> out = ORDER_BY_created_at_DESC mine \<longrightarrow>
     history_laporan P E user s = (\<lparr>code = 200, body = JsonRows out\<rparr>, s)
     \<and> mset out = mset mine
     \<and> set out = {r \<in> set (laporan_pengiriman s). id_kurir r = auth_id user}
     \<and> sorted_wrt (\<lambda>a b. created_at b \<le> created_at a) out
     \<and> (auth_id user \<notin> set (map id_kurir (laporan_pengiriman s)) \<longrightarrow> out = [])"
proof (intro impI)
  assume pre: "db_fault E = None
   \<and> mine = filter (\<lambda>r. id_kurir r = auth_id user) (laporan_pengiriman s)
   \<and> out = ORDER_BY_created_at_DESC mine"
  then have up: "db_fault E = None"
    and mine: "mine = filter (\<lambda>r. id_kurir r = auth_id user) (laporan_pengiriman s)"
    and out: "out = ORDER_BY_created_at_DESC mine"
    by simp_all
  have response: "history_laporan P E user s = (\<lparr>code = 200, body = JsonRows out\<rparr>, s)"
    unfolding out mine using up by (rule history_laporan_rows)
  have same: "mset out = mset mine"
    unfolding out by (rule ORDER_BY_created_at_DESC_mset)
  from same have "set out = set mine"
    by (rule mset_eq_setD)
  then have only: "set out = {r \<in> set (laporan_pengiriman s). id_kurir r = auth_id user}"
    unfolding mine by simp
  have falling: "sorted_wrt (\<lambda>a b. created_at b \<le> created_at a) out"
    unfolding out by (rule ORDER_BY_created_at_DESC_sorted)
  have none: "auth_id user \<notin> set (map id_kurir (laporan_pengiriman s)) \<longrightarrow> out = []"
  proof
    assume "auth_id user \<notin> set (map id_kurir (laporan_pengiriman s))"
    then have "set out = {}"
      unfolding only by force
    then show "out = []"
      by simp
  qed
  from response same only falling none
  show "history_laporan P E user s = (\<lparr>code = 200, body = JsonRows out\<rparr>, s)
     \<and> mset out = mset mine
     \<and> set out = {r \<in> set (laporan_pengiriman s). id_kurir r = auth_id user}
     \<and> sorted_wrt (\<lambda>a b. created_at b \<le> created_at a) out
     \<and> (auth_id user \<notin> set (map id_kurir (laporan_pengiriman s)) \<longrightarrow> out = [])"
    by blast
qed

text \<open>The claim as it was written asks for strictly falling creation times. Courier 1
  sends two reports within second 5 (clock 5000 and 5400); both are stored, the history
  lists both, and they carry the same \<open>created_at\<close>.\<close>

theorem C5_history_counterexample:
  "snd (handle (test_platform Pool) (at 5400)
          (POST_laporan (Some (''Bearer '' @ alice_token)) (Some ''RESI2'') (Some ''-6.2'')
             (Some ''106.8'') (Some bukti))
          (snd (handle (test_platform Pool) (at 5000)
                  (POST_laporan (Some (''Bearer '' @ alice_token)) (Some ''RESI1'') (Some ''-6.2'')
                     (Some ''106.8'') (Some bukti)) alice_registered)))
     = two_reports
   \<and> handle (test_platform Pool) (at 9000) (GET_laporan (Some (''Bearer '' @ alice_token)))
       two_reports
     = (\<lparr>code = 200, body = JsonRows [report1, report2]\<rparr>, two_reports)
   \<and> created_at report1 = created_at report2
   \<and> \<not> sorted_wrt (\<lambda>a b. created_at b < created_at a) [report1, report2]"
proof -
  have steps: "snd (handle (test_platform Pool) (at 5400)
          (POST_laporan (Some (''Bearer '' @ alice_token)) (Some ''RESI2'') (Some ''-6.2'')
             (Some ''106.8'') (Some bukti))
          (snd (handle (test_platform Pool) (at 5000)
                  (POST_laporan (Some (''Bearer '' @ alice_token)) (Some ''RESI1'') (Some ''-6.2'')
                     (Some ''106.8'') (Some bukti)) alice_registered)))
     = two_reports"
    by (simp only: submit_first submit_second snd_conv)
  have same: "created_at report1 = created_at report2"
    by (simp add: report1_def report2_def)
  then have level: "\<not> sorted_wrt (\<lambda>a b. created_at b < created_at a) [report1, report2]"
    by simp
  from steps history_of_two same level show ?thesis
    by blast
qed

text \<open>The theorem at work on the state with four reports: the history of courier 1 is
  the latest report and then the two of second 5, without the report of courier 2; the
  history of courier 2 is that one report; the history of a courier without reports is
  empty.\<close>

theorem C5_history_witness:
  "history_laporan (test_platform Pool) (at 9000) alice four_reports
     = (\<lparr>code = 200, body = JsonRows [report4, report1, report2]\<rparr>, four_reports)
   \<and> history_laporan (test_platform Pool) (at 9000)
       \<lparr>auth_id = 2, auth_username = ''bob'', iat = 6, exp = 3606\<rparr> four_reports
     = (\<lparr>code = 200, body = JsonRows [report3]\<rparr>, four_reports)
   \<and> history_laporan (test_platform Pool) (at 9000)
       \<lparr>auth_id = 9, auth_username = ''carol'', iat = 6, exp = 3606\<rparr> four_reports
     = (\<lparr>code = 200, body = JsonRows []\<rparr>, four_reports)"
proof -
  let ?P = "test_platform Pool"
  let ?bob = "\<lparr>auth_id = 2, auth_username = ''bob'', iat = 6, exp = 3606\<rparr>"
  let ?carol = "\<lparr>auth_id = 9, auth_username = ''carol'', iat = 6, exp = 3606\<rparr>"
  have up: "db_fault (at 9000) = None"
    by (simp add: at_def)
  have a: "filter (\<lambda>r. id_kurir r = auth_id alice) (laporan_pengiriman four_reports)
             = [report1, report2, report4]"
    by (simp add: four_reports_def report1_def report2_def report3_def report4_def alice_def)
  have a': "ORDER_BY_created_at_DESC [report1, report2, report4] = [report4, report1, report2]"
    by (simp add: ORDER_BY_created_at_DESC_def report1_def report2_def report4_def)
  have b: "filter (\<lambda>r. id_kurir r = auth_id ?bob) (laporan_pengiriman four_reports) = [report3]"
    by (simp add: four_reports_def report1_def report2_def report3_def report4_def)
  have b': "ORDER_BY_created_at_DESC [report3] = [report3]"
    by (simp add: ORDER_BY_created_at_DESC_def)
  have c: "filter (\<lambda>r. id_kurir r = auth_id ?carol) (laporan_pengiriman four_reports) = []"
    by (simp add: four_reports_def report1_def report2_def report3_def report4_def)
  have c': "ORDER_BY_created_at_DESC [] = []"
    by (simp add: ORDER_BY_created_at_DESC_def)
  have c1: "history_laporan ?P (at 9000) alice four_reports
     = (\<lparr>code = 200, body = JsonRows [report4, report1, report2]\<rparr>, four_reports)"
    using up a [symmetric] a' [symmetric]
      C5_history [where E = "at 9000" and user = alice and s = four_reports and P = ?P
                    and mine = "[report1, report2, report4]"
                    and out = "[report4, report1, report2]"]
    by blast
  have c2: "history_laporan ?P (at 9000) ?bob four_reports
     = (\<lparr>code = 200, body = JsonRows [report3]\<rparr>, four_reports)"
    using up b [symmetric] b' [symmetric]
      C5_history [where E = "at 9000" and user = ?bob and s = four_reports and P = ?P
                    and mine = "[report3]" and out = "[report3]"]
    by blast
  have c3: "history_laporan ?P (at 9000) ?carol four_reports
     = (\<lparr>code = 200, body = JsonRows []\<rparr>, four_reports)"
    using up c [symmetric] c' [symmetric]
      C5_history [where E = "at 9000" and user = ?carol and s = four_reports and P = ?P
                    and mine = "[]" and out = "[]"]
    by blast
  from c1 c2 c3 show ?thesis
    by blast
qed

subsection \<open>What a response says about a database error\<close>

lemma jwt_verify_db_fault:
  "jwt_verify P (E\<lparr>db_fault := f\<rparr>) token key = jwt_verify P E token key"
  by (simp add: jwt_verify_def split: option.splits)

lemma verifyToken_db_fault:
  "verifyToken P (E\<lparr>db_fault := f\<rparr>) hdr = verifyToken P E hdr"
  by (simp add: verifyToken_def jwt_verify_db_fault split: option.splits)

lemma upload_single_db_fault:
  "upload_single P (E\<lparr>db_fault := f\<rparr>) foto s = upload_single P E foto s"
  by (simp add: upload_single_def split: option.splits)

lemma register_error_text:
  "register P (E\<lparr>db_fault := Some (err\<lparr>err_message := m\<rparr>)\<rparr>) uname password s
   = register P (E\<lparr>db_fault := Some err\<rparr>) uname password s"
  by (cases uname; cases password) (simp_all add: INSERT_INTO_users_def)

lemma login_error_text:
  "login P (E\<lparr>db_fault := Some (err\<lparr>err_message := m\<rparr>)\<rparr>) uname password s
   = login P (E\<lparr>db_fault := Some err\<rparr>) uname password s"
  by (cases uname; cases password) (simp_all add: SELECT_FROM_users_def)

lemma simpan_laporan_error_text:
  "simpan_laporan P (E\<lparr>db_fault := Some (err\<lparr>err_message := m\<rparr>)\<rparr>) user f resi lat lon s
   = simpan_laporan P (E\<lparr>db_fault := Some err\<rparr>) user f resi lat lon s"
  by (simp add: simpan_laporan_def INSERT_INTO_laporan_pengiriman_def
        split: option.splits)

lemma history_laporan_error_text:
  "history_laporan P (E\<lparr>db_fault := Some (err\<lparr>err_message := m\<rparr>)\<rparr>) user s
   = history_laporan P (E\<lparr>db_fault := Some err\<rparr>) user s"
  by (simp add: history_laporan_def SELECT_FROM_laporan_pengiriman_def)

text \<open>On every route but \<open>/init-db\<close>, the response to a request during a database failure
  is the same whatever the text of the error is.\<close>

lemma api_routes_hide_error_text:
  "req \<noteq> GET_init_db \<Longrightarrow>
   handle P (E\<lparr>db_fault := Some (err\<lparr>err_message := m\<rparr>)\<rparr>) req s
   = handle P (E\<lparr>db_fault := Some err\<rparr>) req s"
  by (cases req)
     (simp_all add: register_error_text login_error_text simpan_laporan_error_text
        history_laporan_error_text verifyToken_db_fault upload_single_db_fault
        split: middleware.splits prod.splits)

text \<open>\<open>/init-db\<close> of the pool variant answers a database failure with the text of the
  error.\<close>

lemma init_db_sends_error_text:
  "variant P = Pool \<Longrightarrow> db_fault E = Some err \<Longrightarrow>
   handle P E GET_init_db s = (\<lparr>code = 500, body = Text (err_message err)\<rparr>, s)"
  by (simp add: init_db_def CREATE_TABLE_IF_NOT_EXISTS_def)

text \<open>
  C9. The claim: whatever fails inside, a response carries a fixed message for the kind
  of error and never the text of a database error. The code at \<open>GET /init-db\<close> of the pool
  variant, while the database refuses the connection: the response is 500 and its body
  is the text of the driver's error, with the address of the database host.
\<close>

theorem C9_init_db_sends_error_text:
  "handle (test_platform Pool) (failing_at 5000) GET_init_db empty_state
     = (\<lparr>code = 500, body = Text ''connect ECONNREFUSED 10.0.0.5:3306''\<rparr>, empty_state)"
proof -
  have "variant (test_platform Pool) = Pool"
    by (simp add: test_platform_def)
  moreover have "db_fault (failing_at 5000)
      = Some \<lparr>err_code = ''ECONNREFUSED'', err_message = ''connect ECONNREFUSED 10.0.0.5:3306''\<rparr>"
    by (simp add: failing_at_def)
  ultimately have "handle (test_platform Pool) (failing_at 5000) GET_init_db empty_state
     = (\<lparr>code = 500,
         body = Text (err_message \<lparr>err_code = ''ECONNREFUSED'',
                                   err_message = ''connect ECONNREFUSED 10.0.0.5:3306''\<rparr>)\<rparr>,
        empty_state)"
    by (rule init_db_sends_error_text)
  then show ?thesis
    by simp
qed

subsection \<open>The status of a report, and one report from registration to history\<close>








end
